theory Spec2Isabelle
  imports Complex_Main
begin

section \<open>The Thorlabs SC10 Tango device server (ThorlabsSC10.py)\<close>

text \<open>
  The device class \<open>ThorlabsSC10\<close> translates every attribute access and command
  into one line sent through an instrument object \<open>self.sc\<close> of the
  instrumentkit library. The library and the controller behind it are outside the
  repository: they are a parameter of every operation below (\<open>instrument\<close>),
  and every call made to them is recorded in the field \<open>io\<close>.
\<close>

subsection \<open>Exceptions, formatting and parsing\<close>

text \<open>
  \<open>AttributeError\<close>: an attribute that was never assigned or was deleted is
  read or deleted. \<open>ValueError\<close>: \<open>int(...)\<close> of a string that is no integer
  literal. \<open>LibraryError\<close>: anything raised inside instrumentkit or pyserial
  (port cannot be opened, timeout, wrong prompt or acknowledgement), by name.
\<close>

datatype exn = AttributeError | ValueError | LibraryError string

definition digit_char :: "nat \<Rightarrow> char" where
  "digit_char d = char_of (48 + d)"

fun fmt_nat :: "nat \<Rightarrow> string" where
  "fmt_nat n = (if n < 10 then [digit_char n]
                else fmt_nat (n div 10) @ [digit_char (n mod 10)])"

text \<open>\<open>'{:d}'.format(v)\<close> for a Python int: decimal digits, \<open>-\<close> in front of a negative value.\<close>

definition fmt_d :: "int \<Rightarrow> string" where
  "fmt_d v = (if v < 0 then CHR ''-'' # fmt_nat (nat (- v)) else fmt_nat (nat v))"

text \<open>
  \<open>int(s)\<close> for a Python string, on code points below 128: white space is stripped at
  both ends, one sign may follow, then decimal digits, single underscores allowed
  between two digits. Anything else raises \<open>ValueError\<close>.
\<close>

definition is_space :: "char \<Rightarrow> bool" where
  "is_space c = ((of_char c :: nat) \<in> {9, 10, 11, 12, 13, 28, 29, 30, 31, 32})"

definition is_digit :: "char \<Rightarrow> bool" where
  "is_digit c = (48 \<le> (of_char c :: nat) \<and> (of_char c :: nat) \<le> 57)"

definition digit_val :: "char \<Rightarrow> nat" where
  "digit_val c = of_char c - 48"

definition strip :: "string \<Rightarrow> string" where
  "strip s = rev (dropWhile is_space (rev (dropWhile is_space s)))"

fun parse_digits :: "nat \<Rightarrow> string \<Rightarrow> nat option" where
  "parse_digits acc [] = Some acc"
| "parse_digits acc (c # cs) =
     (if is_digit c then parse_digits (acc * 10 + digit_val c) cs
      else if c = CHR ''_'' then
        (case cs of
           [] \<Rightarrow> None
         | d # ds \<Rightarrow> if is_digit d then parse_digits (acc * 10 + digit_val d) ds else None)
      else None)"

definition parse_nat :: "string \<Rightarrow> nat option" where
  "parse_nat s =
     (case s of
        [] \<Rightarrow> None
      | c # cs \<Rightarrow> if is_digit c then parse_digits (digit_val c) cs else None)"

definition py_int :: "string \<Rightarrow> exn + int" where
  "py_int s =
     (let t = strip s in
      if t \<noteq> [] \<and> hd t = CHR ''-'' then
        (case parse_nat (tl t) of None \<Rightarrow> Inl ValueError | Some n \<Rightarrow> Inr (- int n))
      else if t \<noteq> [] \<and> hd t = CHR ''+'' then
        (case parse_nat (tl t) of None \<Rightarrow> Inl ValueError | Some n \<Rightarrow> Inr (int n))
      else
        (case parse_nat t of None \<Rightarrow> Inl ValueError | Some n \<Rightarrow> Inr (int n)))"

text \<open>\<open>bool(n)\<close> for a Python int.\<close>

definition py_bool :: "int \<Rightarrow> bool" where
  "py_bool n = (n \<noteq> 0)"

subsection \<open>The device object and its environment\<close>

datatype DevState =
  ON | OFF | CLOSE | OPEN | INSERT | EXTRACT | MOVING | STANDBY | FAULT | INIT
  | RUNNING | ALARM | DISABLE | UNKNOWN

datatype BaudRate = BaudRate_9600 | BaudRate_115200

fun BaudRate_value :: "BaudRate \<Rightarrow> int" where
  "BaudRate_value BaudRate_9600 = 0"
| "BaudRate_value BaudRate_115200 = 1"

datatype stream_level = INFO_STREAM | ERROR_STREAM | DEBUG_STREAM

text \<open>The instrument object returned by \<open>ik.thorlabs.SC10.open_serial\<close>.\<close>

record SC10 =
  prompt :: string

text \<open>The calls made to the instrument library, in the order they are made.\<close>

datatype io_event =
  OpenSerial string int rat
  | Query string
  | Sendcmd string

text \<open>
  What the library and the controller answer. Each answer may depend on the
  instrument object and on everything sent before. \<open>open_serial\<close> returns the
  instrument or raises; \<open>respond_query\<close> returns the reply string or raises;
  \<open>respond_sendcmd\<close> returns nothing (\<open>None\<close>) or raises.
\<close>

record instrument =
  open_serial :: "io_event list \<Rightarrow> string \<Rightarrow> int \<Rightarrow> rat \<Rightarrow> exn + SC10"
  respond_query :: "SC10 \<Rightarrow> io_event list \<Rightarrow> string \<Rightarrow> exn + string"
  respond_sendcmd :: "SC10 \<Rightarrow> io_event list \<Rightarrow> string \<Rightarrow> exn option"

text \<open>
  The fields of a \<open>ThorlabsSC10\<close> object: the three device properties, the three
  private status fields \<open>__enabled\<close>, \<open>__open\<close>, \<open>__interlock\<close> (assigned by
  \<open>init_device\<close>, which the Tango constructor runs before any other method), the
  attribute \<open>sc\<close> (\<open>None\<close> while it is not assigned or after \<open>del\<close>), the Tango
  state and status, the lines written to the Tango log streams, and the calls made
  to the instrument library. The float \<open>Timeout\<close> is only handed on to
  \<open>open_serial\<close>; it is kept as the rational number it denotes.
\<close>

record ThorlabsSC10 =
  Port :: string
  Baudrate :: int
  Timeout :: rat
  priv_enabled :: bool
  priv_open :: bool
  priv_interlock :: bool
  sc :: "SC10 option"
  dev_state :: DevState
  dev_status :: string
  streams :: "(stream_level \<times> string) list"
  io :: "io_event list"

definition set_state :: "DevState \<Rightarrow> ThorlabsSC10 \<Rightarrow> ThorlabsSC10" where
  "set_state st s = s\<lparr>dev_state := st\<rparr>"

definition set_status :: "string \<Rightarrow> ThorlabsSC10 \<Rightarrow> ThorlabsSC10" where
  "set_status msg s = s\<lparr>dev_status := msg\<rparr>"

definition info_stream :: "string \<Rightarrow> ThorlabsSC10 \<Rightarrow> ThorlabsSC10" where
  "info_stream msg s = s\<lparr>streams := streams s @ [(INFO_STREAM, msg)]\<rparr>"

definition error_stream :: "string \<Rightarrow> ThorlabsSC10 \<Rightarrow> ThorlabsSC10" where
  "error_stream msg s = s\<lparr>streams := streams s @ [(ERROR_STREAM, msg)]\<rparr>"

definition debug_stream :: "string \<Rightarrow> ThorlabsSC10 \<Rightarrow> ThorlabsSC10" where
  "debug_stream msg s = s\<lparr>streams := streams s @ [(DEBUG_STREAM, msg)]\<rparr>"

text \<open>
  \<open>self.sc.query(cmd)\<close> and \<open>self.sc.sendcmd(cmd)\<close>: reading \<open>self.sc\<close> raises
  \<open>AttributeError\<close> when the attribute is absent, and then nothing is sent.
\<close>

definition query :: "instrument \<Rightarrow> string \<Rightarrow> ThorlabsSC10 \<Rightarrow> (exn + string) \<times> ThorlabsSC10" where
  "query ik cmd s =
     (case sc s of
        None \<Rightarrow> (Inl AttributeError, s)
      | Some c \<Rightarrow> (respond_query ik c (io s) cmd, s\<lparr>io := io s @ [Query cmd]\<rparr>))"

definition sendcmd :: "instrument \<Rightarrow> string \<Rightarrow> ThorlabsSC10 \<Rightarrow> (exn + unit) \<times> ThorlabsSC10" where
  "sendcmd ik cmd s =
     (case sc s of
        None \<Rightarrow> (Inl AttributeError, s)
      | Some c \<Rightarrow>
          (case respond_sendcmd ik c (io s) cmd of None \<Rightarrow> Inr () | Some e \<Rightarrow> Inl e,
           s\<lparr>io := io s @ [Sendcmd cmd]\<rparr>))"

text \<open>\<open>int(self.sc.query(cmd))\<close>.\<close>

definition query_int :: "instrument \<Rightarrow> string \<Rightarrow> ThorlabsSC10 \<Rightarrow> (exn + int) \<times> ThorlabsSC10" where
  "query_int ik cmd s =
     (case query ik cmd s of
        (Inl e, s') \<Rightarrow> (Inl e, s')
      | (Inr r, s') \<Rightarrow> (py_int r, s'))"

subsection \<open>Connection life cycle\<close>

text \<open>
  The body of the \<open>try\<close> block of \<open>init_device\<close>. The call
  \<open>Device.init_device(self)\<close> before it fetches the device properties, which are
  fields of the object here.
\<close>

definition init_device_try :: "instrument \<Rightarrow> ThorlabsSC10 \<Rightarrow> (exn + unit) \<times> ThorlabsSC10" where
  "init_device_try ik s =
     (let s1 = s\<lparr>io := io s @ [OpenSerial (Port s) (Baudrate s) (Timeout s)]\<rparr> in
      case open_serial ik (io s) (Port s) (Baudrate s) (Timeout s) of
        Inl e \<Rightarrow> (Inl e, s1)
      | Inr c \<Rightarrow>
          (let s2 = s1\<lparr>sc := Some c\<rparr>;
               s3 = s2\<lparr>sc := Some (c\<lparr>prompt := ''> ''\<rparr>)\<rparr> in
           case query ik ''id?'' s3 of
             (Inl e, s4) \<Rightarrow> (Inl e, s4)
           | (Inr name, s4) \<Rightarrow>
               (Inr (), set_state ON (info_stream (''Connection established: '' @ name) s4))))"

definition init_device :: "instrument \<Rightarrow> ThorlabsSC10 \<Rightarrow> (exn + unit) \<times> ThorlabsSC10" where
  "init_device ik s =
     (let s1 = s\<lparr>priv_enabled := False\<rparr>;
          s2 = s1\<lparr>priv_open := False\<rparr>;
          s3 = s2\<lparr>priv_interlock := False\<rparr>;
          s4 = info_stream (''Connecting to serial port '' @ Port s3 @ '' with baudrate ''
                 @ fmt_d (Baudrate s3) @ '' ...'') s3 in
      case init_device_try ik s4 of
        (Inr u, s5) \<Rightarrow> (Inr u, s5)
      | (Inl e, s5) \<Rightarrow> (Inr (), set_state OFF (error_stream ''Cannot connect!'' s5)))"

definition delete_device :: "ThorlabsSC10 \<Rightarrow> (exn + unit) \<times> ThorlabsSC10" where
  "delete_device s =
     (let s1 = set_state OFF s in
      case sc s1 of
        None \<Rightarrow> (Inl AttributeError, s1)
      | Some c \<Rightarrow> (Inr (), info_stream ''Device was deleted!'' (s1\<lparr>sc := None\<rparr>)))"

subsection \<open>Polling refresh\<close>

text \<open>The result is the returned value: \<open>DevState.OPEN\<close> in the first branch, \<open>None\<close> in the second.\<close>

definition always_executed_hook ::
    "instrument \<Rightarrow> ThorlabsSC10 \<Rightarrow> (exn + DevState option) \<times> ThorlabsSC10" where
  "always_executed_hook ik s =
     (case query_int ik ''ens?'' s of
        (Inl e, s1) \<Rightarrow> (Inl e, s1)
      | (Inr a, s1) \<Rightarrow>
     (case query_int ik ''closed?'' (s1\<lparr>priv_enabled := py_bool a\<rparr>) of
        (Inl e, s2) \<Rightarrow> (Inl e, s2)
      | (Inr b, s2) \<Rightarrow>
     (case query_int ik ''interlock?'' (s2\<lparr>priv_open := \<not> py_bool b\<rparr>) of
        (Inl e, s3) \<Rightarrow> (Inl e, s3)
      | (Inr c, s3) \<Rightarrow>
          (let s4 = s3\<lparr>priv_interlock := py_bool c\<rparr> in
           if priv_open s4
           then (Inr (Some OPEN), set_state OPEN (set_status ''Device is OPEN'' s4))
           else (Inr None, set_state CLOSE (set_status ''Device is CLOSED'' s4))))))"

subsection \<open>Attributes\<close>

definition read_enabled :: "ThorlabsSC10 \<Rightarrow> bool" where
  "read_enabled s = priv_enabled s"

definition read_open :: "ThorlabsSC10 \<Rightarrow> bool" where
  "read_open s = priv_open s"

definition read_interlock :: "ThorlabsSC10 \<Rightarrow> bool" where
  "read_interlock s = priv_interlock s"

definition read_baudrate :: "instrument \<Rightarrow> ThorlabsSC10 \<Rightarrow> (exn + BaudRate) \<times> ThorlabsSC10" where
  "read_baudrate ik s =
     (case query_int ik ''baud?'' s of
        (Inl e, s') \<Rightarrow> (Inl e, s')
      | (Inr n, s') \<Rightarrow> (Inr (if py_bool n then BaudRate_115200 else BaudRate_9600), s'))"

definition write_baudrate :: "instrument \<Rightarrow> int \<Rightarrow> ThorlabsSC10 \<Rightarrow> (exn + unit) \<times> ThorlabsSC10" where
  "write_baudrate ik v s = sendcmd ik (''baud='' @ fmt_d v) s"

definition read_mode :: "instrument \<Rightarrow> ThorlabsSC10 \<Rightarrow> (exn + int) \<times> ThorlabsSC10" where
  "read_mode ik s =
     (case query_int ik ''mode?'' s of
        (Inl e, s') \<Rightarrow> (Inl e, s')
      | (Inr n, s') \<Rightarrow> (Inr (n - 1), s'))"

definition write_mode :: "instrument \<Rightarrow> int \<Rightarrow> ThorlabsSC10 \<Rightarrow> (exn + unit) \<times> ThorlabsSC10" where
  "write_mode ik v s = sendcmd ik (''mode='' @ fmt_d (v + 1)) s"

definition read_trigger_mode :: "instrument \<Rightarrow> ThorlabsSC10 \<Rightarrow> (exn + int) \<times> ThorlabsSC10" where
  "read_trigger_mode ik s = query_int ik ''trig?'' s"

definition write_trigger_mode :: "instrument \<Rightarrow> int \<Rightarrow> ThorlabsSC10 \<Rightarrow> (exn + unit) \<times> ThorlabsSC10" where
  "write_trigger_mode ik v s = sendcmd ik (''trig='' @ fmt_d v) s"

definition read_extrigger_mode :: "instrument \<Rightarrow> ThorlabsSC10 \<Rightarrow> (exn + int) \<times> ThorlabsSC10" where
  "read_extrigger_mode ik s = query_int ik ''xto?'' s"

definition write_extrigger_mode :: "instrument \<Rightarrow> int \<Rightarrow> ThorlabsSC10 \<Rightarrow> (exn + unit) \<times> ThorlabsSC10" where
  "write_extrigger_mode ik v s = sendcmd ik (''xto='' @ fmt_d v) s"

definition read_repeat_count :: "instrument \<Rightarrow> ThorlabsSC10 \<Rightarrow> (exn + int) \<times> ThorlabsSC10" where
  "read_repeat_count ik s = query_int ik ''rep?'' s"

definition write_repeat_count :: "instrument \<Rightarrow> int \<Rightarrow> ThorlabsSC10 \<Rightarrow> (exn + unit) \<times> ThorlabsSC10" where
  "write_repeat_count ik v s = sendcmd ik (''rep='' @ fmt_d v) s"

definition read_open_duration :: "instrument \<Rightarrow> ThorlabsSC10 \<Rightarrow> (exn + int) \<times> ThorlabsSC10" where
  "read_open_duration ik s = query_int ik ''open?'' s"

definition write_open_duration :: "instrument \<Rightarrow> int \<Rightarrow> ThorlabsSC10 \<Rightarrow> (exn + unit) \<times> ThorlabsSC10" where
  "write_open_duration ik v s = sendcmd ik (''open='' @ fmt_d v) s"

definition read_close_duration :: "instrument \<Rightarrow> ThorlabsSC10 \<Rightarrow> (exn + int) \<times> ThorlabsSC10" where
  "read_close_duration ik s = query_int ik ''shut?'' s"

definition write_close_duration :: "instrument \<Rightarrow> int \<Rightarrow> ThorlabsSC10 \<Rightarrow> (exn + unit) \<times> ThorlabsSC10" where
  "write_close_duration ik v s = sendcmd ik (''shut='' @ fmt_d v) s"

subsection \<open>Commands\<close>

definition enable :: "instrument \<Rightarrow> ThorlabsSC10 \<Rightarrow> (exn + unit) \<times> ThorlabsSC10" where
  "enable ik s =
     (if priv_enabled s then (Inr (), debug_stream ''shutter already enabled'' s)
      else sendcmd ik ''ens'' (debug_stream ''enable shutter'' s))"

definition disable :: "instrument \<Rightarrow> ThorlabsSC10 \<Rightarrow> (exn + unit) \<times> ThorlabsSC10" where
  "disable ik s =
     (if priv_enabled s then sendcmd ik ''ens'' (debug_stream ''disable shutter'' s)
      else (Inr (), debug_stream ''shutter already disabled'' s))"

definition store_config :: "instrument \<Rightarrow> ThorlabsSC10 \<Rightarrow> (exn + unit) \<times> ThorlabsSC10" where
  "store_config ik s = sendcmd ik ''savp'' (debug_stream ''store config'' s)"

definition restore_config :: "instrument \<Rightarrow> ThorlabsSC10 \<Rightarrow> (exn + unit) \<times> ThorlabsSC10" where
  "restore_config ik s = sendcmd ik ''resp'' (debug_stream ''load config'' s)"

text \<open>The three cached status fields, as the read-only attributes show them.\<close>

definition status_fields :: "ThorlabsSC10 \<Rightarrow> bool \<times> bool \<times> bool" where
  "status_fields s = (read_enabled s, read_open s, read_interlock s)"

subsection \<open>Example objects\<close>

text \<open>
  The object as the Tango constructor hands it to \<open>init_device\<close>, with the default
  values of the three device properties and \<open>sc\<close> not assigned yet.
\<close>

definition new_device :: ThorlabsSC10 where
  "new_device =
     \<lparr>Port = ''/dev/ttyUSB0'', Baudrate = 9600, Timeout = 1,
      priv_enabled = False, priv_open = False, priv_interlock = False,
      sc = None, dev_state = UNKNOWN, dev_status = ''Not initialised'',
      streams = [], io = []\<rparr>"

text \<open>The same object holding an instrument, as a successful \<open>init_device\<close> leaves it.\<close>

definition connected_device :: ThorlabsSC10 where
  "connected_device = new_device\<lparr>sc := Some \<lparr>prompt = ''> ''\<rparr>, dev_state := ON\<rparr>"

text \<open>A controller that answers each query by a table and accepts every command.\<close>

definition answering :: "(string \<Rightarrow> string) \<Rightarrow> instrument" where
  "answering table =
     \<lparr>open_serial = (\<lambda>h p b t. Inr \<lparr>prompt = []\<rparr>),
      respond_query = (\<lambda>c h cmd. Inr (table cmd)),
      respond_sendcmd = (\<lambda>c h cmd. None)\<rparr>"

text \<open>A port that cannot be opened.\<close>

definition unreachable :: instrument where
  "unreachable =
     \<lparr>open_serial = (\<lambda>h p b t. Inl (LibraryError ''SerialException'')),
      respond_query = (\<lambda>c h cmd. Inl (LibraryError ''SerialException'')),
      respond_sendcmd = (\<lambda>c h cmd. Some (LibraryError ''SerialException''))\<rparr>"

text \<open>A port that opens, with a controller that never answers.\<close>

definition silent :: instrument where
  "silent =
     \<lparr>open_serial = (\<lambda>h p b t. Inr \<lparr>prompt = []\<rparr>),
      respond_query = (\<lambda>c h cmd. Inl (LibraryError ''timeout'')),
      respond_sendcmd = (\<lambda>c h cmd. Some (LibraryError ''timeout''))\<rparr>"




section \<open>Properties\<close>

subsection \<open>Formatting and parsing are inverse\<close>

declare fmt_nat.simps [simp del]

















subsection \<open>One call, one line on the wire\<close>

lemma query_connected:
  "sc s = Some c \<Longrightarrow>
   query ik cmd s = (respond_query ik c (io s) cmd, s\<lparr>io := io s @ [Query cmd]\<rparr>)"
  by (simp add: query_def)


lemma query_int_connected:
  "sc s = Some c \<Longrightarrow>
   query_int ik cmd s =
     (case respond_query ik c (io s) cmd of Inl e \<Rightarrow> Inl e | Inr r \<Rightarrow> py_int r,
      s\<lparr>io := io s @ [Query cmd]\<rparr>)"
  by (simp add: query_int_def query_connected split: sum.splits)



lemma connected_device_sc: "sc connected_device = Some \<lparr>prompt = ''> ''\<rparr>"
  by (simp add: connected_device_def new_device_def)

lemma connected_device_io: "io connected_device = []"
  by (simp add: connected_device_def new_device_def)

subsection \<open>Mode: the 1-based wire code\<close>








subsection \<open>Polling refresh\<close>


lemma hook_without_instrument:
  "sc s = None \<Longrightarrow> always_executed_hook ik s = (Inl AttributeError, s)"
  by (simp add: always_executed_hook_def query_int_def query_def)

lemma hook_first_query_raises:
  "sc s = Some c \<Longrightarrow> respond_query ik c (io s) ''ens?'' = Inl e \<Longrightarrow>
   always_executed_hook ik s = (Inl e, s\<lparr>io := io s @ [Query ''ens?'']\<rparr>)"
  by (simp add: always_executed_hook_def query_int_connected)





subsection \<open>Commands\<close>

text \<open>
  Claim C4. On a device that holds its instrument, \<open>enable\<close> sends exactly one \<open>ens\<close>
  when the cached flag \<open>__enabled\<close> is false, and only writes a debug line when it is
  true; \<open>disable\<close> sends exactly one \<open>ens\<close> when the flag is true, and only writes a
  debug line when it is false.
\<close>

theorem enable_disable_toggle:
  assumes "sc s = Some c"
  shows "snd (enable ik s) =
           (if priv_enabled s then debug_stream ''shutter already enabled'' s
            else (debug_stream ''enable shutter'' s)\<lparr>io := io s @ [Sendcmd ''ens'']\<rparr>)
       \<and> io (snd (enable ik s)) = io s @ (if priv_enabled s then [] else [Sendcmd ''ens''])
       \<and> snd (disable ik s) =
           (if priv_enabled s
            then (debug_stream ''disable shutter'' s)\<lparr>io := io s @ [Sendcmd ''ens'']\<rparr>
            else debug_stream ''shutter already disabled'' s)
       \<and> io (snd (disable ik s)) = io s @ (if priv_enabled s then [Sendcmd ''ens''] else [])"
  using assms
  by (simp add: enable_def disable_def sendcmd_def debug_stream_def)

theorem enable_disable_toggle_witness:
  "sc connected_device = Some \<lparr>prompt = ''> ''\<rparr>
   \<and> io (snd (enable silent connected_device)) = [Sendcmd ''ens'']
   \<and> io (snd (disable silent connected_device)) = []
   \<and> io (snd (enable silent (connected_device\<lparr>priv_enabled := True\<rparr>))) = []
   \<and> io (snd (disable silent (connected_device\<lparr>priv_enabled := True\<rparr>))) = [Sendcmd ''ens'']"
proof -
  have e: "\<not> priv_enabled connected_device"
    by (simp add: connected_device_def new_device_def)
  have c: "sc (connected_device\<lparr>priv_enabled := True\<rparr>) = Some \<lparr>prompt = ''> ''\<rparr>"
    by (simp add: connected_device_sc)
  show ?thesis
    using enable_disable_toggle [OF connected_device_sc, of silent]
      enable_disable_toggle [OF c, of silent]
    by (simp add: e connected_device_io connected_device_sc debug_stream_def)
qed

text \<open>
  Claim C7. On a device that holds its instrument, \<open>store_config\<close> sends exactly
  \<open>savp\<close> and \<open>restore_config\<close> sends exactly \<open>resp\<close>, whatever the state; one after
  the other they put \<open>savp\<close> and then \<open>resp\<close> on the wire, and no query.
\<close>

theorem store_restore_config:
  assumes "sc s = Some c"
  shows "io (snd (store_config ik s)) = io s @ [Sendcmd ''savp'']
       \<and> io (snd (restore_config ik s)) = io s @ [Sendcmd ''resp'']
       \<and> io (snd (restore_config ik (snd (store_config ik s))))
           = io s @ [Sendcmd ''savp'', Sendcmd ''resp'']"
  using assms
  by (simp add: store_config_def restore_config_def sendcmd_def debug_stream_def)

theorem store_restore_config_witness:
  "sc connected_device = Some \<lparr>prompt = ''> ''\<rparr>
   \<and> io (snd (restore_config (answering (\<lambda>cmd. [])) (snd (store_config (answering (\<lambda>cmd. [])) connected_device))))
       = [Sendcmd ''savp'', Sendcmd ''resp'']"
  using store_restore_config [OF connected_device_sc, of "answering (\<lambda>cmd. [])"]
  by (simp add: connected_device_sc connected_device_io)

subsection \<open>Attributes\<close>





subsection \<open>Connection life cycle\<close>

lemma init_device_try_cases:
  "init_device_try ik s =
     (case open_serial ik (io s) (Port s) (Baudrate s) (Timeout s) of
        Inl e \<Rightarrow> (Inl e, s\<lparr>io := io s @ [OpenSerial (Port s) (Baudrate s) (Timeout s)]\<rparr>)
      | Inr c \<Rightarrow>
          (case respond_query ik (c\<lparr>prompt := ''> ''\<rparr>)
                  (io s @ [OpenSerial (Port s) (Baudrate s) (Timeout s)]) ''id?'' of
             Inl e \<Rightarrow>
               (Inl e, s\<lparr>sc := Some (c\<lparr>prompt := ''> ''\<rparr>),
                  io := io s @ [OpenSerial (Port s) (Baudrate s) (Timeout s), Query ''id?'']\<rparr>)
           | Inr name \<Rightarrow>
               (Inr (), s\<lparr>sc := Some (c\<lparr>prompt := ''> ''\<rparr>), dev_state := ON,
                  streams := streams s @ [(INFO_STREAM, ''Connection established: '' @ name)],
                  io := io s @ [OpenSerial (Port s) (Baudrate s) (Timeout s), Query ''id?'']\<rparr>)))"
  by (simp add: init_device_try_def query_def set_state_def info_stream_def Let_def
      split: sum.splits)



text \<open>
  Claim C9. As amended: \<open>delete_device\<close> always leaves the Tango state \<open>OFF\<close> and
  \<open>sc\<close> absent, and running it again changes nothing more of the device object; but
  it returns normally only when \<open>sc\<close> was assigned, and raises \<open>AttributeError\<close>
  otherwise.
\<close>

theorem delete_device_effect:
  "dev_state (snd (delete_device s)) = OFF
   \<and> sc (snd (delete_device s)) = None
   \<and> fst (delete_device s) = (if sc s = None then Inl AttributeError else Inr ())
   \<and> snd (delete_device (snd (delete_device s))) = snd (delete_device s)"
  by (cases "sc s") (simp_all add: delete_device_def set_state_def info_stream_def)

theorem delete_device_effect_witness:
  "dev_state (snd (delete_device connected_device)) = OFF
   \<and> sc (snd (delete_device connected_device)) = None
   \<and> fst (delete_device connected_device) = Inr ()
   \<and> snd (delete_device (snd (delete_device connected_device))) = snd (delete_device connected_device)"
  using delete_device_effect [of connected_device]
  by (simp add: connected_device_sc)

text \<open>
  The claim as first stated fails: a second \<open>delete_device\<close>, and a
  \<open>delete_device\<close> after an \<open>init_device\<close> that could not open the port, raise
  \<open>AttributeError\<close>.
\<close>

theorem delete_device_not_idempotent:
  "fst (delete_device connected_device) = Inr ()
   \<and> fst (delete_device (snd (delete_device connected_device))) = Inl AttributeError
   \<and> fst (delete_device (snd (init_device unreachable new_device))) = Inl AttributeError"
  by (simp add: delete_device_def set_state_def info_stream_def connected_device_def
      new_device_def init_device_def init_device_try_def unreachable_def error_stream_def Let_def)

subsection \<open>Who assigns the cached status fields\<close>

lemma status_fields_sendcmd [simp]: "status_fields (snd (sendcmd ik cmd s)) = status_fields s"
  by (simp add: sendcmd_def status_fields_def read_enabled_def read_open_def read_interlock_def
      split: option.splits)

lemma status_fields_query_int [simp]: "status_fields (snd (query_int ik cmd s)) = status_fields s"
  by (simp add: query_int_def query_def status_fields_def read_enabled_def read_open_def
      read_interlock_def split: option.splits sum.splits)

lemma status_fields_debug_stream [simp]: "status_fields (debug_stream msg s) = status_fields s"
  by (simp add: debug_stream_def status_fields_def read_enabled_def read_open_def
      read_interlock_def)

lemma snd_case_sum_pair:
  "snd (case p of (Inl e, s') \<Rightarrow> (Inl e, s') | (Inr n, s') \<Rightarrow> (f n, s')) = snd p"
  by (simp split: prod.splits sum.splits)

text \<open>
  Claim C10. No attribute write and no command changes \<open>__enabled\<close>, \<open>__open\<close> or
  \<open>__interlock\<close>, whether it returns or raises; nor does an attribute read or
  \<open>delete_device\<close>. \<open>init_device\<close> sets all three to \<open>False\<close>.
\<close>

theorem status_fields_frame:
  "status_fields (snd (write_mode ik v s)) = status_fields s
   \<and> status_fields (snd (write_trigger_mode ik v s)) = status_fields s
   \<and> status_fields (snd (write_extrigger_mode ik v s)) = status_fields s
   \<and> status_fields (snd (write_baudrate ik v s)) = status_fields s
   \<and> status_fields (snd (write_repeat_count ik v s)) = status_fields s
   \<and> status_fields (snd (write_open_duration ik v s)) = status_fields s
   \<and> status_fields (snd (write_close_duration ik v s)) = status_fields s
   \<and> status_fields (snd (enable ik s)) = status_fields s
   \<and> status_fields (snd (disable ik s)) = status_fields s
   \<and> status_fields (snd (store_config ik s)) = status_fields s
   \<and> status_fields (snd (restore_config ik s)) = status_fields s
   \<and> status_fields (snd (read_mode ik s)) = status_fields s
   \<and> status_fields (snd (read_trigger_mode ik s)) = status_fields s
   \<and> status_fields (snd (read_extrigger_mode ik s)) = status_fields s
   \<and> status_fields (snd (read_baudrate ik s)) = status_fields s
   \<and> status_fields (snd (read_repeat_count ik s)) = status_fields s
   \<and> status_fields (snd (read_open_duration ik s)) = status_fields s
   \<and> status_fields (snd (read_close_duration ik s)) = status_fields s
   \<and> status_fields (snd (delete_device s)) = status_fields s
   \<and> status_fields (snd (init_device ik s)) = (False, False, False)"
proof -
  have rm: "status_fields (snd (read_mode ik s)) = status_fields s"
    by (simp add: read_mode_def snd_case_sum_pair)
  have rb: "status_fields (snd (read_baudrate ik s)) = status_fields s"
    by (simp add: read_baudrate_def snd_case_sum_pair)
  have dd: "status_fields (snd (delete_device s)) = status_fields s"
    by (simp add: delete_device_def set_state_def info_stream_def status_fields_def
        read_enabled_def read_open_def read_interlock_def Let_def split: option.splits)
  have ini: "status_fields (snd (init_device ik s)) = (False, False, False)"
    by (simp add: init_device_def init_device_try_cases info_stream_def error_stream_def
        set_state_def status_fields_def read_enabled_def read_open_def read_interlock_def Let_def
        split: sum.splits)
  show ?thesis
    by (simp add: rm rb dd ini write_mode_def write_trigger_mode_def write_extrigger_mode_def
        write_baudrate_def write_repeat_count_def write_open_duration_def write_close_duration_def
        enable_def disable_def store_config_def restore_config_def read_trigger_mode_def
        read_extrigger_mode_def read_repeat_count_def read_open_duration_def
        read_close_duration_def)
qed

theorem status_fields_frame_witness:
  "status_fields (snd (write_mode silent 2 (connected_device\<lparr>priv_open := True\<rparr>)))
     = (False, True, False)
   \<and> status_fields (snd (enable silent (connected_device\<lparr>priv_open := True\<rparr>)))
     = (False, True, False)
   \<and> status_fields (snd (init_device silent (connected_device\<lparr>priv_open := True\<rparr>)))
     = (False, False, False)"
  using status_fields_frame [of silent 2 "connected_device\<lparr>priv_open := True\<rparr>"]
  by (simp add: status_fields_def read_enabled_def read_open_def read_interlock_def
      connected_device_def new_device_def)

end
